theory Spec2Isabelle
  imports Main "HOL-Library.Word"
begin

section \<open>Failures\<close>

text \<open>
  The header reports a broken contract with \<^verbatim>\<open>ORT_ENFORCE\<close>, which throws. A throw is the
  \<open>Inl\<close> branch of a sum; the text of the exception is the enforced condition or the message
  given with it. Reading through a null pointer and \<^verbatim>\<open>map::at\<close> on a missing key are
  branches of their own.
\<close>

datatype error = EnforceFailed string | NullPointer | OutOfRange

section \<open>Graph elements read by the builder\<close>

text \<open>
  \<^verbatim>\<open>using Dimension = onnx::TensorShapeProto_Dimension\<close>: a dimension holds a concrete
  extent (\<^verbatim>\<open>dim_value\<close>) or a symbolic name (\<^verbatim>\<open>dim_param\<close>).
\<close>

datatype Dimension = DimValue int | DimParam string

text \<open>Of a \<^verbatim>\<open>TypeProto\<close> the builder reads the tensor element type and the shape.\<close>

record TypeProto =
  tensor_elem_type :: int
  tensor_shape :: "Dimension list option"

text \<open>
  A \<^verbatim>\<open>NodeArg\<close> of the forward graph: \<^verbatim>\<open>Name()\<close> and \<^verbatim>\<open>TypeAsProto()\<close> (a pointer
  that may be null).
\<close>

record NodeArg =
  NodeArg_Name :: string
  NodeArg_TypeAsProto :: "TypeProto option"

record Node =
  Node_Name :: string
  Node_OpType :: string
  InputDefs :: "NodeArg list"
  OutputDefs :: "NodeArg list"

text \<open>
  Of the \<^verbatim>\<open>Graph\<close> the header uses three lookups: \<^verbatim>\<open>GetNodeArg\<close> and
  \<^verbatim>\<open>GetProducerNode\<close> return a pointer that is null when the name is unknown, and
  \<^verbatim>\<open>DomainToVersionMap\<close> is a map from domain to opset version.
\<close>

record Graph =
  GetNodeArg :: "string \<rightharpoonup> NodeArg"
  GetProducerNode :: "string \<rightharpoonup> Node"
  DomainToVersionMap :: "string \<rightharpoonup> int"

text \<open>
  Of the logger only one fact matters: whether a message of severity INFO is built at all.
  When it is, the operands of the \<^verbatim>\<open>LOGS(logger_, INFO) << ...\<close> line are evaluated.
\<close>

record Logger =
  info_enabled :: bool

text \<open>\<^verbatim>\<open>ArgDef(name, type_proto)\<close>, the argument of a node to be added.\<close>

datatype ArgDef = ArgDef (arg_name: string) (arg_type: "TypeProto option")

section \<open>The builder's state\<close>

text \<open>
  The members of \<^verbatim>\<open>GradientBuilderBase\<close> (\<open>this_graph\<close> is \<^verbatim>\<open>graph_\<close>, and so on:
  a name cannot end in an underscore here). The constructor enforces \<^verbatim>\<open>node_ != nullptr\<close>, so a
  constructed builder has its node; \<^verbatim>\<open>graph_\<close> is a pointer that \<^verbatim>\<open>OnnxOpSetVersion\<close> tests
  for null. \<^verbatim>\<open>stashed_tensors_\<close> is a reference to a set shared by all builders of a pass: it
  is not a field here, every operation that touches it takes the set and returns it.
\<close>

record GradientBuilderBase =
  this_graph :: "Graph option"
  this_node :: Node
  this_unique_node_prefix :: string
  this_gradient_inputs :: "string set"
  this_gradient_outputs :: "string set"
  this_logger :: Logger

section \<open>Decimal text of an index\<close>

text \<open>
  \<^verbatim>\<open>std::to_string\<close> of a \<^verbatim>\<open>size_t\<close> is its decimal text without leading zeros; of an
  \<^verbatim>\<open>int\<close> it is the same with a minus sign in front of a negative value.
\<close>

text \<open>The character of a digit; it is asked for digits below ten only.\<close>

definition digit_char :: "nat \<Rightarrow> char" where
  "digit_char d = ''0123456789'' ! d"

function to_string_nat :: "nat \<Rightarrow> string" where
  "to_string_nat n =
     (if n < 10 then [digit_char n] else to_string_nat (n div 10) @ [digit_char (n mod 10)])"
  by pat_completeness auto
termination
  by (relation "measure (\<lambda>n. n)") auto

declare to_string_nat.simps [simp del]

definition to_string_int :: "int \<Rightarrow> string" where
  "to_string_int i =
     (if i < 0 then CHR ''-'' # to_string_nat (nat (- i)) else to_string_nat (nat i))"

text \<open>The number a decimal text stands for; used to show that the text determines the number.\<close>

definition decimal_value :: "string \<Rightarrow> nat" where
  "decimal_value s = foldl (\<lambda>a c. 10 * a + (of_char c - 48)) 0 s"

section \<open>Names\<close>

definition GradientName :: "string \<Rightarrow> string" where
  "GradientName nm = nm @ ''_grad''"

definition ExternalOutputName :: "string \<Rightarrow> string" where
  "ExternalOutputName nm = nm @ ''_external''"

definition Name :: "GradientBuilderBase \<Rightarrow> string \<Rightarrow> string" where
  "Name b nm = this_unique_node_prefix b @ nm"

text \<open>
  \<^verbatim>\<open>CreateUniqueNodePrefix\<close>, called by the constructor with the two pointers it was given.
  \<^verbatim>\<open>Graph::GenerateNodeName\<close> is defined outside the header and is the parameter \<open>gen\<close>.
\<close>

definition CreateUniqueNodePrefix ::
  "(Graph \<Rightarrow> string \<Rightarrow> string) \<Rightarrow> Graph option \<Rightarrow> Node option \<Rightarrow> error + string" where
  "CreateUniqueNodePrefix gen graph node =
     (case node of
        None \<Rightarrow> Inl (EnforceFailed ''node_ != nullptr'')
      | Some n \<Rightarrow>
          if Node_Name n \<noteq> [] then Inr (Node_Name n @ ''_Grad/'')
          else (case graph of
                  None \<Rightarrow> Inl NullPointer
                | Some g \<Rightarrow> Inr (gen g (Node_OpType n) @ ''_Grad/'')))"

definition construct ::
  "(Graph \<Rightarrow> string \<Rightarrow> string) \<Rightarrow> Graph option \<Rightarrow> Node option \<Rightarrow> string set \<Rightarrow> string set \<Rightarrow>
     Logger \<Rightarrow> error + GradientBuilderBase" where
  "construct gen graph node gradient_inputs gradient_outputs logger =
     (case CreateUniqueNodePrefix gen graph node of
        Inl e \<Rightarrow> Inl e
      | Inr prefix \<Rightarrow>
          (case node of
             None \<Rightarrow> Inl (EnforceFailed ''node_ != nullptr'')
           | Some n \<Rightarrow>
               Inr \<lparr>this_graph = graph, this_node = n, this_unique_node_prefix = prefix,
                    this_gradient_inputs = gradient_inputs,
                    this_gradient_outputs = gradient_outputs, this_logger = logger\<rparr>))"

section \<open>Constant tensors\<close>

text \<open>
  A \<^verbatim>\<open>float\<close> is its IEEE 754 binary32 bit pattern. The literals of the header are
  \<^verbatim>\<open>0.0f\<close>, \<^verbatim>\<open>0.5f\<close> and \<^verbatim>\<open>1.0f\<close>.
\<close>

type_synonym float = "32 word"

definition float_0_0 :: float where "float_0_0 = 0x00000000"
definition float_0_5 :: float where "float_0_5 = 0x3F000000"
definition float_1_0 :: float where "float_1_0 = 0x3F800000"

text \<open>
  The scalar types the templates are instantiated with. A value of a narrow type is kept as the
  constructor call that made it (\<^verbatim>\<open>MLFloat16(value)\<close>, \<^verbatim>\<open>Float8E4M3FN(value, true)\<close>): the
  rounding to the narrow format is defined outside the header and is not computed here.
\<close>

datatype Scalar =
    Float (source: float)
  | MLFloat16 (source: float)
  | BFloat16 (source: float)
  | Float8E4M3FN (source: float) (saturate: bool)
  | Float8E4M3FNUZ (source: float) (saturate: bool)
  | Float8E5M2 (source: float) (saturate: bool)
  | Float8E5M2FNUZ (source: float) (saturate: bool)

text \<open>The tags of \<^verbatim>\<open>onnx::TensorProto_DataType\<close> the header names, with ONNX's numbers.\<close>

definition TensorProto_DataType_FLOAT :: int where "TensorProto_DataType_FLOAT = 1"
definition TensorProto_DataType_FLOAT16 :: int where "TensorProto_DataType_FLOAT16 = 10"
definition TensorProto_DataType_BFLOAT16 :: int where "TensorProto_DataType_BFLOAT16 = 16"
definition TensorProto_DataType_FLOAT8E4M3FN :: int where "TensorProto_DataType_FLOAT8E4M3FN = 17"
definition TensorProto_DataType_FLOAT8E4M3FNUZ :: int where
  "TensorProto_DataType_FLOAT8E4M3FNUZ = 18"
definition TensorProto_DataType_FLOAT8E5M2 :: int where "TensorProto_DataType_FLOAT8E5M2 = 19"
definition TensorProto_DataType_FLOAT8E5M2FNUZ :: int where
  "TensorProto_DataType_FLOAT8E5M2FNUZ = 20"

record TensorProto =
  data_type :: int
  dims :: "int list"
  data :: "Scalar list"

text \<open>
  \<^verbatim>\<open>ONNX_NAMESPACE::ToTensor<T>(value)\<close> is defined outside the header: a tensor of the data type
  of \<open>T\<close>, holding the one value and no dimension yet.
\<close>

fun DataType_of :: "Scalar \<Rightarrow> int" where
  "DataType_of (Float _) = TensorProto_DataType_FLOAT"
| "DataType_of (MLFloat16 _) = TensorProto_DataType_FLOAT16"
| "DataType_of (BFloat16 _) = TensorProto_DataType_BFLOAT16"
| "DataType_of (Float8E4M3FN _ _) = TensorProto_DataType_FLOAT8E4M3FN"
| "DataType_of (Float8E4M3FNUZ _ _) = TensorProto_DataType_FLOAT8E4M3FNUZ"
| "DataType_of (Float8E5M2 _ _) = TensorProto_DataType_FLOAT8E5M2"
| "DataType_of (Float8E5M2FNUZ _ _) = TensorProto_DataType_FLOAT8E5M2FNUZ"

definition ToTensor :: "Scalar \<Rightarrow> TensorProto" where
  "ToTensor v = \<lparr>data_type = DataType_of v, dims = [], data = [v]\<rparr>"

definition add_dims :: "TensorProto \<Rightarrow> int \<Rightarrow> TensorProto" where
  "add_dims t d = t\<lparr>dims := dims t @ [d]\<rparr>"

text \<open>
  \<^verbatim>\<open>ORT_ENFORCE(shape.size() == 0 || (shape.size() == 1 && shape[0] == 1))\<close>, then one
  \<^verbatim>\<open>add_dims\<close> for each entry of the shape.
\<close>

definition ScalarTensorProto :: "Scalar \<Rightarrow> int list \<Rightarrow> error + TensorProto" where
  "ScalarTensorProto v shp =
     (if length shp = 0 \<or> (length shp = 1 \<and> shp ! 0 = 1)
      then Inr (foldl add_dims (ToTensor v) shp)
      else Inl (EnforceFailed ''shape.size() == 0 || (shape.size() == 1 && shape[0] == 1)''))"

section \<open>Nodes to be added\<close>

datatype AttributeProto =
    AttributeTensor string TensorProto
  | AttributeInts string "int list"
  | AttributeInt string int

record NodeDef =
  op_type :: string
  input_args :: "ArgDef list"
  output_args :: "ArgDef list"
  attributes :: "AttributeProto list"
  name :: string

text \<open>
  The constructor \<^verbatim>\<open>NodeDef(op_type, input_args, output_args, attributes)\<close> as the header
  calls it: the name is left empty.
\<close>

definition NodeDef :: "string \<Rightarrow> ArgDef list \<Rightarrow> ArgDef list \<Rightarrow> AttributeProto list \<Rightarrow> NodeDef" where
  "NodeDef op ins outs attrs =
     \<lparr>op_type = op, input_args = ins, output_args = outs, attributes = attrs, name = []\<rparr>"

text \<open>The template \<^verbatim>\<open>ConstantScalarNode(T value, shape, arg_name)\<close>.\<close>

definition ConstantScalarNode_shape :: "Scalar \<Rightarrow> int list \<Rightarrow> string \<Rightarrow> error + NodeDef" where
  "ConstantScalarNode_shape v shp arg_nm =
     (case ScalarTensorProto v shp of
        Inl e \<Rightarrow> Inl e
      | Inr t_proto \<Rightarrow>
          Inr (NodeDef ''Constant'' [] [ArgDef arg_nm None] [AttributeTensor ''value'' t_proto]))"

text \<open>
  \<^verbatim>\<open>ConstantScalarNode(float value, arg_name, elem_type)\<close>. The four 8-bit branches stand
  between \<^verbatim>\<open>#if !defined(DISABLE_FLOAT8_TYPES)\<close> and \<^verbatim>\<open>#endif\<close>; the build flag is the first
  argument.
\<close>

definition ConstantScalarNode :: "bool \<Rightarrow> float \<Rightarrow> string \<Rightarrow> int \<Rightarrow> error + NodeDef" where
  "ConstantScalarNode DISABLE_FLOAT8_TYPES v arg_nm elem_type =
     (if elem_type = TensorProto_DataType_FLOAT16
        then ConstantScalarNode_shape (MLFloat16 v) [1] arg_nm
      else if elem_type = TensorProto_DataType_BFLOAT16
        then ConstantScalarNode_shape (BFloat16 v) [1] arg_nm
      else if \<not> DISABLE_FLOAT8_TYPES \<and> elem_type = TensorProto_DataType_FLOAT8E4M3FN
        then ConstantScalarNode_shape (Float8E4M3FN v True) [1] arg_nm
      else if \<not> DISABLE_FLOAT8_TYPES \<and> elem_type = TensorProto_DataType_FLOAT8E4M3FNUZ
        then ConstantScalarNode_shape (Float8E4M3FNUZ v True) [1] arg_nm
      else if \<not> DISABLE_FLOAT8_TYPES \<and> elem_type = TensorProto_DataType_FLOAT8E5M2
        then ConstantScalarNode_shape (Float8E5M2 v True) [1] arg_nm
      else if \<not> DISABLE_FLOAT8_TYPES \<and> elem_type = TensorProto_DataType_FLOAT8E5M2FNUZ
        then ConstantScalarNode_shape (Float8E5M2FNUZ v True) [1] arg_nm
      else ConstantScalarNode_shape (Float v) [1] arg_nm)"

definition ZeroConstantNode :: "bool \<Rightarrow> int \<Rightarrow> error + NodeDef" where
  "ZeroConstantNode DISABLE_FLOAT8_TYPES elem_type =
     ConstantScalarNode DISABLE_FLOAT8_TYPES float_0_0
       (''ZeroConstant_Type'' @ to_string_int elem_type) elem_type"

definition HalfConstantNode :: "bool \<Rightarrow> int \<Rightarrow> error + NodeDef" where
  "HalfConstantNode DISABLE_FLOAT8_TYPES elem_type =
     ConstantScalarNode DISABLE_FLOAT8_TYPES float_0_5
       (''HalfConstant_Type'' @ to_string_int elem_type) elem_type"

definition OneConstantNode :: "bool \<Rightarrow> int \<Rightarrow> error + NodeDef" where
  "OneConstantNode DISABLE_FLOAT8_TYPES elem_type =
     ConstantScalarNode DISABLE_FLOAT8_TYPES float_1_0
       (''OneConstant_Type'' @ to_string_int elem_type) elem_type"

section \<open>Availability queries\<close>

text \<open>
  \<^verbatim>\<open>i < node_->InputDefs().size() && gradient_outputs_.find(name) != gradient_outputs_.end()\<close>.
  The index is a \<^verbatim>\<open>size_t\<close>; \<open>&&\<close> does not read the list when the index is out of range.
\<close>

definition IsGradientRequiredForSrcNodeInput :: "GradientBuilderBase \<Rightarrow> nat \<Rightarrow> bool" where
  "IsGradientRequiredForSrcNodeInput b i =
     (if i < length (InputDefs (this_node b))
      then NodeArg_Name (InputDefs (this_node b) ! i) \<in> this_gradient_outputs b
      else False)"

definition IsGradientAvailableForSrcNodeOutput :: "GradientBuilderBase \<Rightarrow> nat \<Rightarrow> bool" where
  "IsGradientAvailableForSrcNodeOutput b i =
     (if i < length (OutputDefs (this_node b))
      then NodeArg_Name (OutputDefs (this_node b) ! i) \<in> this_gradient_inputs b
      else False)"

section \<open>Opset version of the ONNX domain\<close>

text \<open>
  \<^verbatim>\<open>std::unordered_map::at\<close> throws \<^verbatim>\<open>std::out_of_range\<close> on a missing key.
\<close>

definition map_at :: "('k \<rightharpoonup> 'v) \<Rightarrow> 'k \<Rightarrow> error + 'v" where
  "map_at m k = (case m k of None \<Rightarrow> Inl OutOfRange | Some v \<Rightarrow> Inr v)"

text \<open>
  \<^verbatim>\<open>graph_ != nullptr && map.find(kOnnxDomain) != map.end() ? map.at(kOnnxDomain) : -1\<close>.
  The constant \<^verbatim>\<open>kOnnxDomain\<close> is declared outside this header and is a parameter here.
\<close>

definition OnnxOpSetVersion :: "string \<Rightarrow> GradientBuilderBase \<Rightarrow> error + int" where
  "OnnxOpSetVersion kOnnxDomain b =
     (case this_graph b of
        None \<Rightarrow> Inr (- 1)
      | Some g \<Rightarrow>
          if DomainToVersionMap g kOnnxDomain \<noteq> None
          then map_at (DomainToVersionMap g) kOnnxDomain
          else Inr (- 1))"

section \<open>The entry point\<close>

text \<open>
  The loop of \<^verbatim>\<open>GetGradientDefs\<close> from index \<open>i\<close> on: a node whose name is empty is named
  \<^verbatim>\<open>Name(node_def.op_type + "_" + std::to_string(i))\<close>, any other node is left as it is.
\<close>

fun name_node_defs :: "GradientBuilderBase \<Rightarrow> nat \<Rightarrow> NodeDef list \<Rightarrow> NodeDef list" where
  "name_node_defs b i [] = []"
| "name_node_defs b i (node_def # rest) =
     (if name node_def = []
      then node_def\<lparr>name := Name b (op_type node_def @ ''_'' @ to_string_nat i)\<rparr>
      else node_def) # name_node_defs b (Suc i) rest"

text \<open>
  \<^verbatim>\<open>GetGradientDefsImpl\<close> is pure virtual: the concrete builder's body is the argument
  \<open>impl\<close>. It may throw, and it may touch the shared stash through the accessors, so it
  returns its result together with the stash it leaves.
\<close>

type_synonym GetGradientDefsImpl =
  "GradientBuilderBase \<Rightarrow> string set \<Rightarrow> (error + NodeDef list) \<times> string set"

definition GetGradientDefs ::
  "GetGradientDefsImpl \<Rightarrow> GradientBuilderBase \<Rightarrow> string set \<Rightarrow>
     (error + NodeDef list) \<times> string set" where
  "GetGradientDefs impl b stashed =
     (case impl b stashed of
        (Inl e, stashed') \<Rightarrow> (Inl e, stashed')
      | (Inr node_defs, stashed') \<Rightarrow> (Inr (name_node_defs b 0 node_defs), stashed'))"

subsection \<open>The two degenerate builders\<close>

definition EmptyGradientBuilder_GetGradientDefsImpl :: GetGradientDefsImpl where
  "EmptyGradientBuilder_GetGradientDefsImpl b stashed = (Inr [], stashed)"

definition UnSupportedGradientBuilder_GetGradientDefsImpl :: GetGradientDefsImpl where
  "UnSupportedGradientBuilder_GetGradientDefsImpl b stashed =
     (Inl (EnforceFailed ''Gradient should not be requested for this operator''), stashed)"

section \<open>Stashed tensors and the accessors\<close>

definition RecordStashedTensor :: "string \<Rightarrow> string set \<Rightarrow> string set" where
  "RecordStashedTensor nm stashed = insert nm stashed"

definition IsTensorStashed :: "string \<Rightarrow> string set \<Rightarrow> bool" where
  "IsTensorStashed nm stashed = (nm \<in> stashed)"

text \<open>
  \<^verbatim>\<open>I\<close>, the i-th input of the forward op (\<open>O\<close> is the name of a relation operator here,
  so the two accessors are \<open>I_arg\<close> and \<open>O_arg\<close>). \<^verbatim>\<open>graph_utils::RecomputeName\<close> is
  defined outside the header and is the parameter \<open>RecomputeName\<close>. The steps, in the order
  of the source: the index is enforced; \<^verbatim>\<open>graph_->GetNodeArg\<close> reads through \<^verbatim>\<open>graph_\<close>;
  when the recomputed argument is found, the log line reads \<^verbatim>\<open>producer_node->Name()\<close> of
  the pointer \<^verbatim>\<open>GetProducerNode\<close> returned, and the recomputed argument is returned;
  otherwise the name is stashed when \<open>record_stashing\<close> is set, and the forward argument is
  returned. The stash is returned with the result, also when the call throws.
\<close>

definition I_arg ::
  "(string \<Rightarrow> string) \<Rightarrow> GradientBuilderBase \<Rightarrow> nat \<Rightarrow> bool \<Rightarrow> string set \<Rightarrow>
     (error + ArgDef) \<times> string set" where
  "I_arg RecomputeName b i record_stashing stashed =
     (if \<not> i < length (InputDefs (this_node b))
      then (Inl (EnforceFailed ''i < node_->InputDefs().size()''), stashed)
      else
        let nm = NodeArg_Name (InputDefs (this_node b) ! i) in
        case this_graph b of
          None \<Rightarrow> (Inl NullPointer, stashed)
        | Some g \<Rightarrow>
            (case GetNodeArg g (RecomputeName nm) of
               Some recomputed_nodearg \<Rightarrow>
                 if info_enabled (this_logger b) \<and> GetProducerNode g nm = None
                 then (Inl NullPointer, stashed)
                 else (Inr (ArgDef (NodeArg_Name recomputed_nodearg)
                              (NodeArg_TypeAsProto recomputed_nodearg)), stashed)
             | None \<Rightarrow>
                 (Inr (ArgDef (NodeArg_Name (InputDefs (this_node b) ! i))
                         (NodeArg_TypeAsProto (InputDefs (this_node b) ! i))),
                  if record_stashing
                  then RecordStashedTensor (NodeArg_Name (InputDefs (this_node b) ! i)) stashed
                  else stashed)))"

text \<open>\<^verbatim>\<open>O\<close>, the i-th output of the forward op: the same steps on \<^verbatim>\<open>OutputDefs\<close>.\<close>

definition O_arg ::
  "(string \<Rightarrow> string) \<Rightarrow> GradientBuilderBase \<Rightarrow> nat \<Rightarrow> bool \<Rightarrow> string set \<Rightarrow>
     (error + ArgDef) \<times> string set" where
  "O_arg RecomputeName b i record_stashing stashed =
     (if \<not> i < length (OutputDefs (this_node b))
      then (Inl (EnforceFailed ''i < node_->OutputDefs().size()''), stashed)
      else
        let nm = NodeArg_Name (OutputDefs (this_node b) ! i) in
        case this_graph b of
          None \<Rightarrow> (Inl NullPointer, stashed)
        | Some g \<Rightarrow>
            (case GetNodeArg g (RecomputeName nm) of
               Some recomputed_nodearg \<Rightarrow>
                 if info_enabled (this_logger b) \<and> GetProducerNode g nm = None
                 then (Inl NullPointer, stashed)
                 else (Inr (ArgDef (NodeArg_Name recomputed_nodearg)
                              (NodeArg_TypeAsProto recomputed_nodearg)), stashed)
             | None \<Rightarrow>
                 (Inr (ArgDef (NodeArg_Name (OutputDefs (this_node b) ! i))
                         (NodeArg_TypeAsProto (OutputDefs (this_node b) ! i))),
                  if record_stashing
                  then RecordStashedTensor (NodeArg_Name (OutputDefs (this_node b) ! i)) stashed
                  else stashed)))"

text \<open>The accessors that do not touch the stash.\<close>

definition GI :: "GradientBuilderBase \<Rightarrow> nat \<Rightarrow> error + ArgDef" where
  "GI b i =
     (if i < length (InputDefs (this_node b))
      then Inr (ArgDef (GradientName (NodeArg_Name (InputDefs (this_node b) ! i)))
                  (NodeArg_TypeAsProto (InputDefs (this_node b) ! i)))
      else Inl (EnforceFailed ''i < node_->InputDefs().size()''))"

definition GO :: "GradientBuilderBase \<Rightarrow> nat \<Rightarrow> error + ArgDef" where
  "GO b i =
     (if i < length (OutputDefs (this_node b))
      then Inr (ArgDef (GradientName (NodeArg_Name (OutputDefs (this_node b) ! i)))
                  (NodeArg_TypeAsProto (OutputDefs (this_node b) ! i)))
      else Inl (EnforceFailed ''i < node_->OutputDefs().size()''))"

definition IA :: "GradientBuilderBase \<Rightarrow> string \<Rightarrow> TypeProto option \<Rightarrow> ArgDef" where
  "IA b argSuffix type_proto = ArgDef (Name b argSuffix) type_proto"

subsection \<open>Calls on the shared stash\<close>

text \<open>
  The members of \<^verbatim>\<open>GradientBuilderBase\<close> whose bodies name \<^verbatim>\<open>stashed_tensors_\<close>, or call one
  that does, are \<^verbatim>\<open>RecordStashedTensor\<close>, \<^verbatim>\<open>IsTensorStashed\<close>, \<^verbatim>\<open>I\<close> and \<^verbatim>\<open>O\<close>; the member is
  private, so a concrete builder reaches the set through these only. A pass is a list of such
  calls, each made on some builder, all on the one shared set. A call that throws leaves the
  set as it stands.
\<close>

datatype stash_call =
    Call_I nat bool
  | Call_O nat bool
  | Call_RecordStashedTensor string
  | Call_IsTensorStashed string

fun do_call ::
  "(string \<Rightarrow> string) \<Rightarrow> GradientBuilderBase \<times> stash_call \<Rightarrow> string set \<Rightarrow> string set" where
  "do_call RecomputeName (b, Call_I i record_stashing) stashed =
     snd (I_arg RecomputeName b i record_stashing stashed)"
| "do_call RecomputeName (b, Call_O i record_stashing) stashed =
     snd (O_arg RecomputeName b i record_stashing stashed)"
| "do_call RecomputeName (b, Call_RecordStashedTensor nm) stashed =
     RecordStashedTensor nm stashed"
| "do_call RecomputeName (b, Call_IsTensorStashed nm) stashed = stashed"

fun run_calls ::
  "(string \<Rightarrow> string) \<Rightarrow> (GradientBuilderBase \<times> stash_call) list \<Rightarrow> string set \<Rightarrow> string set" where
  "run_calls RecomputeName [] stashed = stashed"
| "run_calls RecomputeName (c # cs) stashed =
     run_calls RecomputeName cs (do_call RecomputeName c stashed)"

text \<open>
  The forward argument name an accessor call is about: the name at its index, when the index
  is in range.
\<close>

fun accessed_name :: "GradientBuilderBase \<times> stash_call \<Rightarrow> string option" where
  "accessed_name (b, Call_I i record_stashing) =
     (if i < length (InputDefs (this_node b))
      then Some (NodeArg_Name (InputDefs (this_node b) ! i)) else None)"
| "accessed_name (b, Call_O i record_stashing) =
     (if i < length (OutputDefs (this_node b))
      then Some (NodeArg_Name (OutputDefs (this_node b) ! i)) else None)"
| "accessed_name (b, Call_RecordStashedTensor nm) = None"
| "accessed_name (b, Call_IsTensorStashed nm) = None"

section \<open>Undoing broadcasting\<close>

text \<open>
  Modelled from the spec: \<^verbatim>\<open>ComputeBroadcastBackwardAxes\<close> is declared in the header and its
  body is not part of it. The spec (4.3): the dimensions are right-aligned and walked from the
  trailing axis backward. For an aligned pair, a side with concrete extent 1 against a different
  extent gets the axis in its reduce list; a symbolic dimension may broadcast either way, which
  is settled only against the same symbol (no broadcast) or against a concrete 1 (that side is
  the broadcast one), and fails with a diagnostic naming the node otherwise; two different
  concrete extents, neither of them 1, do not broadcast and fail as well. An axis that only the
  longer operand has is a reduce axis of the shorter one. Axes are counted in the right-aligned
  result (the spec's example: shapes [8,1,4] and [4] give axes [0,1] for the second operand) and
  each list is ascending.
\<close>

datatype reduce_side = NoReduce | ReduceA | ReduceB

fun aligned_pair :: "string \<Rightarrow> Dimension \<Rightarrow> Dimension \<Rightarrow> error + reduce_side" where
  "aligned_pair node_name (DimValue x) (DimValue y) =
     (if x = y then Inr NoReduce
      else if x = 1 then Inr ReduceA
      else if y = 1 then Inr ReduceB
      else Inl (EnforceFailed (''dimensions do not broadcast, node '' @ node_name)))"
| "aligned_pair node_name (DimParam p) (DimParam q) =
     (if p = q then Inr NoReduce
      else Inl (EnforceFailed (''symbolic dimensions differ, node '' @ node_name)))"
| "aligned_pair node_name (DimParam p) (DimValue y) =
     (if y = 1 then Inr ReduceB
      else Inl (EnforceFailed (''symbolic dimension against a concrete one, node '' @ node_name)))"
| "aligned_pair node_name (DimValue x) (DimParam q) =
     (if x = 1 then Inr ReduceA
      else Inl (EnforceFailed (''symbolic dimension against a concrete one, node '' @ node_name)))"

text \<open>
  Modelled from the spec: the walk of \<^verbatim>\<open>ComputeBroadcastBackwardAxes\<close> over the reversed
  dimension lists; \<open>k\<close> is the axis of the pair at the head. The recursive call returns the
  axes below \<open>k\<close>, so appending \<open>k\<close> keeps the lists ascending.
\<close>

fun walk_back ::
  "string \<Rightarrow> int \<Rightarrow> Dimension list \<Rightarrow> Dimension list \<Rightarrow> error + (int list \<times> int list)" where
  "walk_back node_name k [] [] = Inr ([], [])"
| "walk_back node_name k [] (b # bs) =
     (case walk_back node_name (k - 1) [] bs of
        Inl e \<Rightarrow> Inl e
      | Inr (A_axes, B_axes) \<Rightarrow> Inr (A_axes @ [k], B_axes))"
| "walk_back node_name k (a # as) [] =
     (case walk_back node_name (k - 1) as [] of
        Inl e \<Rightarrow> Inl e
      | Inr (A_axes, B_axes) \<Rightarrow> Inr (A_axes, B_axes @ [k]))"
| "walk_back node_name k (a # as) (b # bs) =
     (case aligned_pair node_name a b of
        Inl e \<Rightarrow> Inl e
      | Inr side \<Rightarrow>
          (case walk_back node_name (k - 1) as bs of
             Inl e \<Rightarrow> Inl e
           | Inr (A_axes, B_axes) \<Rightarrow>
               Inr (case side of
                      NoReduce \<Rightarrow> (A_axes, B_axes)
                    | ReduceA \<Rightarrow> (A_axes @ [k], B_axes)
                    | ReduceB \<Rightarrow> (A_axes, B_axes @ [k]))))"

text \<open>
  Modelled from the spec: \<^verbatim>\<open>ComputeBroadcastBackwardAxes\<close> itself. The walk starts at the
  trailing axis of the longer operand; the two axis lists are returned as a pair, or the
  failure of the walk.
\<close>

definition ComputeBroadcastBackwardAxes ::
  "Dimension list \<Rightarrow> Dimension list \<Rightarrow> string \<Rightarrow> error + (int list \<times> int list)" where
  "ComputeBroadcastBackwardAxes A_dims B_dims node_name =
     walk_back node_name (int (max (length A_dims) (length B_dims)) - 1) (rev A_dims) (rev B_dims)"

text \<open>
  Modelled from the spec: \<^verbatim>\<open>AddReduceSumNode\<close> and \<^verbatim>\<open>HandleBroadcasting\<close> are declared in the
  header and their bodies are not part of it. The spec (4.3): a reduction node sums the raw
  gradient over the reduce axes, keeping dimensions only when needed; when the reduced shape
  does not match the rank of the operand, a reshape to the operand's shape follows; when no
  axis needs reduction, no node is emitted. Dimensions are taken to be needed when the operand
  has the rank of the raw gradient. The new nodes are appended to the list \<open>output\<close>.
\<close>

definition AddReduceSumNode ::
  "ArgDef \<Rightarrow> ArgDef \<Rightarrow> int list \<Rightarrow> bool \<Rightarrow> NodeDef list \<Rightarrow> NodeDef list" where
  "AddReduceSumNode input_arg_def output_arg_def reduce_axes keep_dims output =
     output @
     [NodeDef ''ReduceSum'' [input_arg_def] [output_arg_def]
        [AttributeInts ''axes'' reduce_axes,
         AttributeInt ''keepdims'' (if keep_dims then 1 else 0)]]"

text \<open>
  Modelled from the spec: the rank of an argument, when its type gives a shape.
\<close>

definition rank_of :: "ArgDef \<Rightarrow> nat option" where
  "rank_of a =
     (case arg_type a of None \<Rightarrow> None | Some t \<Rightarrow> map_option length (tensor_shape t))"

text \<open>
  Modelled from the spec: \<^verbatim>\<open>HandleBroadcasting\<close>, defined outside the header. Nothing is
  emitted for an empty list of axes; otherwise the reduction, and the reshape when the rank
  after the reduction is not the operand's.
\<close>

definition HandleBroadcasting ::
  "GradientBuilderBase \<Rightarrow> ArgDef \<Rightarrow> ArgDef \<Rightarrow> ArgDef \<Rightarrow> int list \<Rightarrow> NodeDef list \<Rightarrow>
     NodeDef list" where
  "HandleBroadcasting b input_grad target output_grad reduce_axes output =
     (if reduce_axes = [] then output
      else
        let keep_dims = (rank_of input_grad = rank_of target);
            reduced_rank =
              (if keep_dims then rank_of input_grad
               else map_option (\<lambda>r. r - length reduce_axes) (rank_of input_grad))
        in if reduced_rank = rank_of target
           then AddReduceSumNode input_grad output_grad reduce_axes keep_dims output
           else
             let reduced = IA b (''ReduceSum_'' @ arg_name input_grad) None;
                 target_shape = IA b (arg_name target @ ''_shape'') None
             in AddReduceSumNode input_grad reduced reduce_axes keep_dims output @
                [NodeDef ''Shape'' [target] [target_shape] [],
                 NodeDef ''Reshape'' [reduced, target_shape] [output_grad] []])"

section \<open>A small forward graph\<close>

text \<open>
  Three nodes, \<^verbatim>\<open>Gelu(w) -> x\<close>, \<^verbatim>\<open>Dropout(x, ratio) -> (z, mask)\<close> and
  \<^verbatim>\<open>Mul(z, mask) -> u\<close>, in a graph where a recomputation pass has added \<^verbatim>\<open>x_recompute\<close>
  and \<^verbatim>\<open>z_recompute\<close>; a builder for the second node and one for the third. The theorems
  below are instantiated here.
\<close>

definition ex_RecomputeName :: "string \<Rightarrow> string" where
  "ex_RecomputeName nm = nm @ ''_recompute''"

definition ex_producer :: Node where
  "ex_producer =
     \<lparr>Node_Name = ''gelu0'', Node_OpType = ''Gelu'',
      InputDefs = [\<lparr>NodeArg_Name = ''w'', NodeArg_TypeAsProto = None\<rparr>],
      OutputDefs = [\<lparr>NodeArg_Name = ''x'', NodeArg_TypeAsProto = None\<rparr>]\<rparr>"

definition ex_node :: Node where
  "ex_node =
     \<lparr>Node_Name = ''drop1'', Node_OpType = ''Dropout'',
      InputDefs = [\<lparr>NodeArg_Name = ''x'', NodeArg_TypeAsProto = None\<rparr>,
                   \<lparr>NodeArg_Name = ''ratio'', NodeArg_TypeAsProto = None\<rparr>],
      OutputDefs = [\<lparr>NodeArg_Name = ''z'', NodeArg_TypeAsProto = None\<rparr>,
                    \<lparr>NodeArg_Name = ''mask'', NodeArg_TypeAsProto = None\<rparr>]\<rparr>"

definition ex_consumer :: Node where
  "ex_consumer =
     \<lparr>Node_Name = ''mul2'', Node_OpType = ''Mul'',
      InputDefs = [\<lparr>NodeArg_Name = ''z'', NodeArg_TypeAsProto = None\<rparr>,
                   \<lparr>NodeArg_Name = ''mask'', NodeArg_TypeAsProto = None\<rparr>],
      OutputDefs = [\<lparr>NodeArg_Name = ''u'', NodeArg_TypeAsProto = None\<rparr>]\<rparr>"

definition ex_graph :: Graph where
  "ex_graph =
     \<lparr>GetNodeArg =
        [''x_recompute'' \<mapsto> \<lparr>NodeArg_Name = ''x_recompute'', NodeArg_TypeAsProto = None\<rparr>,
         ''z_recompute'' \<mapsto> \<lparr>NodeArg_Name = ''z_recompute'', NodeArg_TypeAsProto = None\<rparr>],
      GetProducerNode =
        [''x'' \<mapsto> ex_producer, ''z'' \<mapsto> ex_node, ''mask'' \<mapsto> ex_node, ''u'' \<mapsto> ex_consumer],
      DomainToVersionMap = [[] \<mapsto> 17]\<rparr>"

definition ex_builder :: GradientBuilderBase where
  "ex_builder =
     \<lparr>this_graph = Some ex_graph, this_node = ex_node,
      this_unique_node_prefix = ''drop1_Grad/'',
      this_gradient_inputs = {''z''}, this_gradient_outputs = {''x''},
      this_logger = \<lparr>info_enabled = True\<rparr>\<rparr>"

definition ex_builder2 :: GradientBuilderBase where
  "ex_builder2 =
     \<lparr>this_graph = Some ex_graph, this_node = ex_consumer,
      this_unique_node_prefix = ''mul2_Grad/'',
      this_gradient_inputs = {''u''}, this_gradient_outputs = {''z'', ''mask''},
      this_logger = \<lparr>info_enabled = True\<rparr>\<rparr>"

text \<open>
  The same graph with \<open>x\<close> as a graph input: no node produces it, so \<^verbatim>\<open>GetProducerNode\<close>
  returns null for it, while \<^verbatim>\<open>x_recompute\<close> is still a node argument of the graph. The
  second builder differs from the first only in a logger that builds no INFO message.
\<close>

definition ex_graph_x_input :: Graph where
  "ex_graph_x_input =
     ex_graph\<lparr>GetProducerNode := [''z'' \<mapsto> ex_node, ''mask'' \<mapsto> ex_node, ''u'' \<mapsto> ex_consumer]\<rparr>"

definition ex_builder_x_input :: GradientBuilderBase where
  "ex_builder_x_input = ex_builder\<lparr>this_graph := Some ex_graph_x_input\<rparr>"

definition ex_builder_x_input_quiet :: GradientBuilderBase where
  "ex_builder_x_input_quiet = ex_builder_x_input\<lparr>this_logger := \<lparr>info_enabled = False\<rparr>\<rparr>"

text \<open>A concrete builder body: three nodes, the second one named by the builder itself.\<close>

definition ex_impl :: GetGradientDefsImpl where
  "ex_impl b stashed =
     (Inr [NodeDef ''Mul'' [] [] [], (NodeDef ''Sum'' [] [] [])\<lparr>name := ''n''\<rparr>,
           NodeDef ''Mul'' [] [] []], stashed)"

section \<open>Decimal text determines the number\<close>

lemma of_char_digit_char: "d < 10 \<Longrightarrow> of_char (digit_char d) = 48 + d"
proof -
  assume "d < 10"
  then consider "d = 0" | "d = 1" | "d = 2" | "d = 3" | "d = 4" | "d = 5" | "d = 6" | "d = 7"
    | "d = 8" | "d = 9" by atomize_elim arith
  then show ?thesis by cases (simp_all add: digit_char_def)
qed

lemma to_string_nat_digits:
  "c \<in> set (to_string_nat n) \<Longrightarrow> 48 \<le> (of_char c :: nat) \<and> (of_char c :: nat) < 58"
proof (induction n rule: to_string_nat.induct)
  case (1 n)
  show ?case
  proof (cases "n < 10")
    case True
    with "1.prems" have "c = digit_char n" by (simp add: to_string_nat.simps)
    with True show ?thesis by (simp add: of_char_digit_char)
  next
    case False
    with "1.prems" have "c \<in> set (to_string_nat (n div 10)) \<or> c = digit_char (n mod 10)"
      by (subst (asm) to_string_nat.simps) auto
    then show ?thesis
    proof
      assume "c \<in> set (to_string_nat (n div 10))"
      with False "1.IH" show ?thesis by simp
    next
      assume "c = digit_char (n mod 10)"
      then show ?thesis by (simp add: of_char_digit_char)
    qed
  qed
qed

lemma decimal_value_to_string: "decimal_value (to_string_nat n) = n"
proof (induction n rule: to_string_nat.induct)
  case (1 n)
  show ?case
  proof (cases "n < 10")
    case True
    then show ?thesis
      by (simp add: to_string_nat.simps decimal_value_def of_char_digit_char)
  next
    case False
    with "1.IH" have ih: "decimal_value (to_string_nat (n div 10)) = n div 10" by simp
    have "decimal_value (to_string_nat n) =
        10 * decimal_value (to_string_nat (n div 10)) + (of_char (digit_char (n mod 10)) - 48)"
      using False by (subst to_string_nat.simps) (simp add: decimal_value_def)
    also have "\<dots> = 10 * (n div 10) + n mod 10"
      by (simp add: ih of_char_digit_char)
    finally show ?thesis by simp
  qed
qed

lemma to_string_nat_inj: "to_string_nat m = to_string_nat n \<Longrightarrow> m = n"
  by (metis decimal_value_to_string)

lemma to_string_nat_no_sep:
  "c \<in> set (to_string_nat n) \<Longrightarrow> c \<noteq> CHR ''_'' \<and> c \<noteq> CHR ''-''"
  using to_string_nat_digits [of c n] by auto

lemma to_string_nat_nonempty: "to_string_nat n \<noteq> []"
  by (subst to_string_nat.simps) simp

lemma hd_to_string_int: "hd (to_string_int i) = CHR ''-'' \<longleftrightarrow> i < 0"
proof -
  have "hd (to_string_nat n) \<noteq> CHR ''-''" for n
    using to_string_nat_no_sep [of "hd (to_string_nat n)" n] to_string_nat_nonempty [of n]
    by simp
  then show ?thesis by (simp add: to_string_int_def)
qed

lemma to_string_int_inj: "to_string_int i = to_string_int j \<Longrightarrow> i = j"
proof -
  assume eq: "to_string_int i = to_string_int j"
  then have sign: "i < 0 \<longleftrightarrow> j < 0"
    using hd_to_string_int [of i] hd_to_string_int [of j] by simp
  show ?thesis
  proof (cases "i < 0")
    case True
    with sign eq have "nat (- i) = nat (- j)"
      by (simp add: to_string_int_def to_string_nat_inj)
    with True sign show ?thesis by simp
  next
    case False
    with sign eq have "nat i = nat j"
      by (simp add: to_string_int_def to_string_nat_inj)
    with False sign show ?thesis by simp
  qed
qed

text \<open>The index after the last underscore of a name can be read back.\<close>

lemma sep_suffix_inj:
  assumes "a @ CHR ''_'' # to_string_nat i = b @ CHR ''_'' # to_string_nat j"
  shows "i = j"
proof -
  let ?P = "\<lambda>c. c \<noteq> CHR ''_''"
  have tw: "takeWhile ?P (rev (xs @ CHR ''_'' # to_string_nat n)) = rev (to_string_nat n)"
    for n xs
  proof -
    have "takeWhile ?P (rev (to_string_nat n) @ CHR ''_'' # rev xs) =
          rev (to_string_nat n) @ takeWhile ?P (CHR ''_'' # rev xs)"
      by (rule takeWhile_append2) (use to_string_nat_no_sep in auto)
    then show ?thesis by simp
  qed
  from assms have "takeWhile ?P (rev (a @ CHR ''_'' # to_string_nat i)) =
             takeWhile ?P (rev (b @ CHR ''_'' # to_string_nat j))" by simp
  then have "rev (to_string_nat i) = rev (to_string_nat j)" by (simp only: tw)
  then show ?thesis by (simp add: to_string_nat_inj)
qed

section \<open>Constant nodes, branch by branch\<close>

lemmas DataType_defs =
  TensorProto_DataType_FLOAT_def TensorProto_DataType_FLOAT16_def
  TensorProto_DataType_BFLOAT16_def TensorProto_DataType_FLOAT8E4M3FN_def
  TensorProto_DataType_FLOAT8E4M3FNUZ_def TensorProto_DataType_FLOAT8E5M2_def
  TensorProto_DataType_FLOAT8E5M2FNUZ_def

lemma DataType_distinct:
  "distinct [TensorProto_DataType_FLOAT, TensorProto_DataType_FLOAT16,
     TensorProto_DataType_BFLOAT16, TensorProto_DataType_FLOAT8E4M3FN,
     TensorProto_DataType_FLOAT8E4M3FNUZ, TensorProto_DataType_FLOAT8E5M2,
     TensorProto_DataType_FLOAT8E5M2FNUZ]"
  by (simp add: DataType_defs)

lemma shape_check_cases:
  "(length shp = 0 \<or> (length shp = 1 \<and> shp ! 0 = 1)) \<longleftrightarrow> (shp = [] \<or> shp = [1::int])"
  by (cases shp) auto

lemma ScalarTensorProto_one:
  "ScalarTensorProto v [1] = Inr \<lparr>data_type = DataType_of v, dims = [1], data = [v]\<rparr>"
  by (simp add: ScalarTensorProto_def ToTensor_def add_dims_def)

lemma ConstantScalarNode_shape_one:
  "ConstantScalarNode_shape v [1] arg_nm =
     Inr (NodeDef ''Constant'' [] [ArgDef arg_nm None]
            [AttributeTensor ''value'' \<lparr>data_type = DataType_of v, dims = [1], data = [v]\<rparr>])"
  by (simp add: ConstantScalarNode_shape_def ScalarTensorProto_one)

lemma ConstantScalarNode_some_scalar:
  "\<exists>s. source s = x \<and>
     ConstantScalarNode DISABLE_FLOAT8_TYPES x arg_nm elem_type =
       Inr (NodeDef ''Constant'' [] [ArgDef arg_nm None]
              [AttributeTensor ''value'' \<lparr>data_type = DataType_of s, dims = [1], data = [s]\<rparr>])"
  unfolding ConstantScalarNode_def ConstantScalarNode_shape_one
  by (auto intro: Scalar.sel)

lemma ConstantScalarNode_FLOAT16:
  "ConstantScalarNode d v n TensorProto_DataType_FLOAT16 =
     ConstantScalarNode_shape (MLFloat16 v) [1] n"
  by (simp add: ConstantScalarNode_def)

lemma ConstantScalarNode_BFLOAT16:
  "ConstantScalarNode d v n TensorProto_DataType_BFLOAT16 =
     ConstantScalarNode_shape (BFloat16 v) [1] n"
  by (simp add: ConstantScalarNode_def DataType_defs)

lemma ConstantScalarNode_FLOAT8E4M3FN:
  "ConstantScalarNode False v n TensorProto_DataType_FLOAT8E4M3FN =
     ConstantScalarNode_shape (Float8E4M3FN v True) [1] n"
  by (simp add: ConstantScalarNode_def DataType_defs)

lemma ConstantScalarNode_FLOAT8E4M3FNUZ:
  "ConstantScalarNode False v n TensorProto_DataType_FLOAT8E4M3FNUZ =
     ConstantScalarNode_shape (Float8E4M3FNUZ v True) [1] n"
  by (simp add: ConstantScalarNode_def DataType_defs)

lemma ConstantScalarNode_FLOAT8E5M2:
  "ConstantScalarNode False v n TensorProto_DataType_FLOAT8E5M2 =
     ConstantScalarNode_shape (Float8E5M2 v True) [1] n"
  by (simp add: ConstantScalarNode_def DataType_defs)

lemma ConstantScalarNode_FLOAT8E5M2FNUZ:
  "ConstantScalarNode False v n TensorProto_DataType_FLOAT8E5M2FNUZ =
     ConstantScalarNode_shape (Float8E5M2FNUZ v True) [1] n"
  by (simp add: ConstantScalarNode_def DataType_defs)

lemma ConstantScalarNode_default:
  "t \<noteq> TensorProto_DataType_FLOAT16 \<Longrightarrow> t \<noteq> TensorProto_DataType_BFLOAT16 \<Longrightarrow>
   d \<or> t \<notin> {TensorProto_DataType_FLOAT8E4M3FN, TensorProto_DataType_FLOAT8E4M3FNUZ,
              TensorProto_DataType_FLOAT8E5M2, TensorProto_DataType_FLOAT8E5M2FNUZ} \<Longrightarrow>
   ConstantScalarNode d v n t = ConstantScalarNode_shape (Float v) [1] n"
  by (auto simp: ConstantScalarNode_def)

lemma ConstantScalarNode_out:
  "(case ConstantScalarNode d x n t of
      Inl e \<Rightarrow> None | Inr nd \<Rightarrow> Some (map arg_name (output_args nd))) = Some [n]"
  using ConstantScalarNode_some_scalar [of x d n t] by (auto simp: NodeDef_def)

lemma ConstantScalarNode_val:
  "(case ConstantScalarNode d x n t of
      Inl e \<Rightarrow> None
    | Inr nd \<Rightarrow>
        (case attributes nd of
           [AttributeTensor k t_proto] \<Rightarrow> Some (map source (data t_proto))
         | _ \<Rightarrow> None)) = Some [x]"
  using ConstantScalarNode_some_scalar [of x d n t] by (auto simp: NodeDef_def)

section \<open>Names given by the entry point\<close>

lemma length_name_node_defs: "length (name_node_defs b i ds) = length ds"
  by (induction ds arbitrary: i) simp_all

lemma nth_name_node_defs:
  "k < length ds \<Longrightarrow>
   name_node_defs b i ds ! k =
     (if name (ds ! k) = []
      then (ds ! k)\<lparr>name := Name b (op_type (ds ! k) @ ''_'' @ to_string_nat (i + k))\<rparr>
      else ds ! k)"
proof (induction ds arbitrary: i k)
  case Nil
  then show ?case by simp
next
  case (Cons d ds)
  show ?case
  proof (cases k)
    case 0
    then show ?thesis by simp
  next
    case (Suc k')
    with Cons.prems have "k' < length ds" by simp
    from Cons.IH [OF this, of "Suc i"] Suc show ?thesis by simp
  qed
qed

lemma auto_names_differ:
  "k \<noteq> l \<Longrightarrow> Name b (op1 @ ''_'' @ to_string_nat k) \<noteq> Name b (op2 @ ''_'' @ to_string_nat l)"
proof
  assume "k \<noteq> l" and "Name b (op1 @ ''_'' @ to_string_nat k) = Name b (op2 @ ''_'' @ to_string_nat l)"
  then have "op1 @ CHR ''_'' # to_string_nat k = op2 @ CHR ''_'' # to_string_nat l"
    by (simp add: Name_def)
  then have "k = l" by (rule sep_suffix_inj)
  with \<open>k \<noteq> l\<close> show False by simp
qed

section \<open>The accessors and the stash\<close>

lemma I_arg_stash:
  "snd (I_arg RecomputeName b i record_stashing stashed) = stashed \<or>
   (i < length (InputDefs (this_node b)) \<and>
    snd (I_arg RecomputeName b i record_stashing stashed) =
      insert (NodeArg_Name (InputDefs (this_node b) ! i)) stashed)"
  by (auto simp: I_arg_def Let_def RecordStashedTensor_def split: option.splits)

lemma O_arg_stash:
  "snd (O_arg RecomputeName b i record_stashing stashed) = stashed \<or>
   (i < length (OutputDefs (this_node b)) \<and>
    snd (O_arg RecomputeName b i record_stashing stashed) =
      insert (NodeArg_Name (OutputDefs (this_node b) ! i)) stashed)"
  by (auto simp: O_arg_def Let_def RecordStashedTensor_def split: option.splits)

lemma do_call_cases:
  "do_call RecomputeName c stashed = stashed \<or>
   (\<exists>nm. do_call RecomputeName c stashed = insert nm stashed \<and>
      (accessed_name c = Some nm \<or> accessed_name c = None))"
proof (cases c)
  case (Pair b call)
  show ?thesis
  proof (cases call)
    case (Call_I i r)
    with Pair show ?thesis
      using I_arg_stash [of RecomputeName b i r stashed] by auto
  next
    case (Call_O i r)
    with Pair show ?thesis
      using O_arg_stash [of RecomputeName b i r stashed] by auto
  next
    case (Call_RecordStashedTensor nm)
    with Pair show ?thesis by (auto simp: RecordStashedTensor_def)
  next
    case (Call_IsTensorStashed nm)
    with Pair show ?thesis by simp
  qed
qed

lemma do_call_mono: "stashed \<subseteq> do_call RecomputeName c stashed"
  using do_call_cases [of RecomputeName c stashed] by auto

lemma run_calls_mono: "stashed \<subseteq> run_calls RecomputeName cs stashed"
proof (induction cs arbitrary: stashed)
  case Nil
  then show ?case by simp
next
  case (Cons c cs)
  have "stashed \<subseteq> do_call RecomputeName c stashed" by (rule do_call_mono)
  also have "\<dots> \<subseteq> run_calls RecomputeName cs (do_call RecomputeName c stashed)"
    by (rule Cons.IH)
  finally show ?case by simp
qed

lemma run_calls_same_name:
  "\<forall>c\<in>set cs. accessed_name c = Some nm \<Longrightarrow>
   run_calls RecomputeName cs stashed = stashed \<or>
   run_calls RecomputeName cs stashed = insert nm stashed"
proof (induction cs arbitrary: stashed)
  case Nil
  then show ?case by simp
next
  case (Cons c cs)
  from Cons.prems have c: "accessed_name c = Some nm"
    and cs: "\<forall>c\<in>set cs. accessed_name c = Some nm" by simp_all
  from c do_call_cases [of RecomputeName c stashed]
  consider "do_call RecomputeName c stashed = stashed"
    | "do_call RecomputeName c stashed = insert nm stashed" by auto
  then show ?case
  proof cases
    case 1
    with Cons.IH [OF cs, of stashed] show ?thesis by simp
  next
    case 2
    with Cons.IH [OF cs, of "insert nm stashed"] show ?thesis by auto
  qed
qed

text \<open>
  What \<open>I\<close> and \<open>O\<close> do when the builder has its graph and the index is in range. If the
  graph holds a recomputed alias of the argument's name, the stash is left as it was, and the
  alias's name and type are returned on the calls whose log line can be evaluated: the line
  reads \<^verbatim>\<open>producer_node->Name()\<close>, so the producer of the forward name has to be there
  whenever INFO messages are built. If the graph holds no alias, the forward argument's own
  name and type are returned, and the stash has that name added when \<open>record_stashing\<close> is
  set and is unchanged when it is not.
\<close>

lemma accessor_recompute_redirection:
  assumes "this_graph b = Some g"
  shows
    "(\<forall>i<length (InputDefs (this_node b)).
        (let arg = InputDefs (this_node b) ! i in
         case GetNodeArg g (RecomputeName (NodeArg_Name arg)) of
           Some alias \<Rightarrow>
             snd (I_arg RecomputeName b i record_stashing stashed) = stashed \<and>
             ((info_enabled (this_logger b) \<longrightarrow> GetProducerNode g (NodeArg_Name arg) \<noteq> None) \<longrightarrow>
              fst (I_arg RecomputeName b i record_stashing stashed) =
                Inr (ArgDef (NodeArg_Name alias) (NodeArg_TypeAsProto alias)))
         | None \<Rightarrow>
             I_arg RecomputeName b i record_stashing stashed =
               (Inr (ArgDef (NodeArg_Name arg) (NodeArg_TypeAsProto arg)),
                if record_stashing then insert (NodeArg_Name arg) stashed else stashed))) \<and>
     (\<forall>i<length (OutputDefs (this_node b)).
        (let arg = OutputDefs (this_node b) ! i in
         case GetNodeArg g (RecomputeName (NodeArg_Name arg)) of
           Some alias \<Rightarrow>
             snd (O_arg RecomputeName b i record_stashing stashed) = stashed \<and>
             ((info_enabled (this_logger b) \<longrightarrow> GetProducerNode g (NodeArg_Name arg) \<noteq> None) \<longrightarrow>
              fst (O_arg RecomputeName b i record_stashing stashed) =
                Inr (ArgDef (NodeArg_Name alias) (NodeArg_TypeAsProto alias)))
         | None \<Rightarrow>
             O_arg RecomputeName b i record_stashing stashed =
               (Inr (ArgDef (NodeArg_Name arg) (NodeArg_TypeAsProto arg)),
                if record_stashing then insert (NodeArg_Name arg) stashed else stashed)))"
  using assms
  by (auto simp: I_arg_def O_arg_def Let_def RecordStashedTensor_def split: option.splits)

text \<open>
  In the small graph: input \<open>x\<close> and output \<open>z\<close> have aliases and are redirected, input
  \<open>ratio\<close> and output \<open>mask\<close> have none and are stashed unless stashing is switched off.
\<close>

lemma accessor_recompute_redirection_example:
  "I_arg ex_RecomputeName ex_builder 0 True {} = (Inr (ArgDef ''x_recompute'' None), {}) \<and>
   I_arg ex_RecomputeName ex_builder 1 True {} = (Inr (ArgDef ''ratio'' None), {''ratio''}) \<and>
   I_arg ex_RecomputeName ex_builder 1 False {} = (Inr (ArgDef ''ratio'' None), {}) \<and>
   O_arg ex_RecomputeName ex_builder 0 True {''q''} = (Inr (ArgDef ''z_recompute'' None), {''q''}) \<and>
   O_arg ex_RecomputeName ex_builder 1 True {''q''} = (Inr (ArgDef ''mask'' None), {''mask'', ''q''}) \<and>
   O_arg ex_RecomputeName ex_builder 1 False {''q''} = (Inr (ArgDef ''mask'' None), {''q''})"
proof -
  have g: "this_graph ex_builder = Some ex_graph" by (simp add: ex_builder_def)
  note t = accessor_recompute_redirection [OF g, of ex_RecomputeName]
  show ?thesis
    using t [of True "{}"] t [of False "{}"] t [of True "{''q''}"] t [of False "{''q''}"]
    by (simp add: ex_builder_def ex_node_def ex_graph_def ex_RecomputeName_def Let_def
        All_less_Suc numeral_2_eq_2 ex_producer_def prod_eq_iff)
qed

section \<open>Equal shapes\<close>

lemma aligned_pair_same: "aligned_pair node_name d d = Inr NoReduce"
  by (cases d) simp_all

lemma walk_back_same: "walk_back node_name k ds ds = Inr ([], [])"
  by (induction ds arbitrary: k) (simp_all add: aligned_pair_same)

section \<open>The claims\<close>

text \<open>
  C1. The claim: for every index in range, \<open>I\<close> (and \<open>O\<close>) returns the recomputed alias when
  the graph holds one, without stashing the forward name, and otherwise returns the forward
  argument and stashes its name unless stashing is switched off. The code does so on every
  call whose log line can be evaluated (\<open>accessor_recompute_redirection\<close> above). It does not
  where the alias is found for a name that no node produces and INFO messages are built:
  \<^verbatim>\<open>GetProducerNode\<close> returns null, the pointer is not tested as
  \<^verbatim>\<open>recomputed_nodearg\<close> is two lines before, and the log line reads
  \<^verbatim>\<open>producer_node->Name()\<close> through it. In the graph where \<open>x\<close> is a graph input and
  \<^verbatim>\<open>x_recompute\<close> exists, \<open>I(0)\<close> is in range and the alias exists, yet no argument is
  returned; with the same graph and a logger that builds no INFO message the alias is
  returned, as the claim says.
\<close>

theorem accessor_alias_without_producer:
  "0 < length (InputDefs (this_node ex_builder_x_input)) \<and>
   GetNodeArg ex_graph_x_input
     (ex_RecomputeName (NodeArg_Name (InputDefs (this_node ex_builder_x_input) ! 0))) =
     Some \<lparr>NodeArg_Name = ''x_recompute'', NodeArg_TypeAsProto = None\<rparr> \<and>
   GetProducerNode ex_graph_x_input ''x'' = None \<and>
   I_arg ex_RecomputeName ex_builder_x_input 0 True {} = (Inl NullPointer, {}) \<and>
   I_arg ex_RecomputeName ex_builder_x_input 0 False {} = (Inl NullPointer, {}) \<and>
   I_arg ex_RecomputeName ex_builder_x_input_quiet 0 True {} =
     (Inr (ArgDef ''x_recompute'' None), {})"
  by (simp add: I_arg_def ex_builder_x_input_quiet_def ex_builder_x_input_def
      ex_graph_x_input_def ex_builder_def ex_graph_def ex_node_def ex_RecomputeName_def)

text \<open>
  C2, as amended. When the concrete builder's body returns a list of nodes, \<open>GetGradientDefs\<close>
  returns a list of the same length in which every node has a non-empty name: a node left
  unnamed gets the unique node prefix followed by its op type, an underscore and its index;
  a named node is returned unchanged; and two nodes that were both left unnamed get different
  names. (Names that the body chose itself are not compared with anything.)
\<close>

theorem GetGradientDefs_names:
  assumes "impl b stashed = (Inr node_defs, stashed')"
  shows "\<exists>out. GetGradientDefs impl b stashed = (Inr out, stashed') \<and>
     length out = length node_defs \<and>
     (\<forall>k<length node_defs.
        name (out ! k) \<noteq> [] \<and>
        (name (node_defs ! k) = [] \<longrightarrow>
           out ! k = (node_defs ! k)
             \<lparr>name := this_unique_node_prefix b @ op_type (node_defs ! k) @ ''_'' @ to_string_nat k\<rparr>) \<and>
        (name (node_defs ! k) \<noteq> [] \<longrightarrow> out ! k = node_defs ! k)) \<and>
     (\<forall>k<length node_defs. \<forall>l<length node_defs.
        k \<noteq> l \<and> name (node_defs ! k) = [] \<and> name (node_defs ! l) = [] \<longrightarrow>
        name (out ! k) \<noteq> name (out ! l))"
proof (intro exI conjI allI impI)
  show "GetGradientDefs impl b stashed = (Inr (name_node_defs b 0 node_defs), stashed')"
    using assms by (simp add: GetGradientDefs_def)
  show "length (name_node_defs b 0 node_defs) = length node_defs"
    by (rule length_name_node_defs)
  fix k assume k: "k < length node_defs"
  show "name (name_node_defs b 0 node_defs ! k) \<noteq> []"
    using k by (simp add: nth_name_node_defs Name_def)
  show "name_node_defs b 0 node_defs ! k = (node_defs ! k)
      \<lparr>name := this_unique_node_prefix b @ op_type (node_defs ! k) @ ''_'' @ to_string_nat k\<rparr>"
    if "name (node_defs ! k) = []"
    using k that by (simp add: nth_name_node_defs Name_def)
  show "name_node_defs b 0 node_defs ! k = node_defs ! k" if "name (node_defs ! k) \<noteq> []"
    using k that by (simp add: nth_name_node_defs)
  fix l assume l: "l < length node_defs"
    and kl: "k \<noteq> l \<and> name (node_defs ! k) = [] \<and> name (node_defs ! l) = []"
  show "name (name_node_defs b 0 node_defs ! k) \<noteq> name (name_node_defs b 0 node_defs ! l)"
    using k l kl auto_names_differ [of k l b "op_type (node_defs ! k)" "op_type (node_defs ! l)"]
    by (simp add: nth_name_node_defs)
qed

text \<open>
  The claim as stated asks for distinct names of any two nodes, of every builder. A body that
  names two nodes alike gets them back alike; a name chosen by the body can be the very name
  the entry point gives to an unnamed node; and the unsupported builder returns no list.
\<close>

theorem GetGradientDefs_names_counterexample:
  "fst (GetGradientDefs
     (\<lambda>b stashed. (Inr [(NodeDef ''Mul'' [] [] [])\<lparr>name := ''n''\<rparr>,
                        (NodeDef ''Sum'' [] [] [])\<lparr>name := ''n''\<rparr>], stashed)) ex_builder {}) =
     Inr [\<lparr>op_type = ''Mul'', input_args = [], output_args = [], attributes = [], name = ''n''\<rparr>,
          \<lparr>op_type = ''Sum'', input_args = [], output_args = [], attributes = [], name = ''n''\<rparr>] \<and>
   fst (GetGradientDefs
     (\<lambda>b stashed. (Inr [(NodeDef ''Mul'' [] [] [])\<lparr>name := ''drop1_Grad/Sum_1''\<rparr>,
                        NodeDef ''Sum'' [] [] []], stashed)) ex_builder {}) =
     Inr [\<lparr>op_type = ''Mul'', input_args = [], output_args = [], attributes = [],
           name = ''drop1_Grad/Sum_1''\<rparr>,
          \<lparr>op_type = ''Sum'', input_args = [], output_args = [], attributes = [],
           name = ''drop1_Grad/Sum_1''\<rparr>] \<and>
   fst (GetGradientDefs UnSupportedGradientBuilder_GetGradientDefsImpl ex_builder {}) =
     Inl (EnforceFailed ''Gradient should not be requested for this operator'')"
  by (simp add: GetGradientDefs_def NodeDef_def Name_def ex_builder_def to_string_nat.simps
      digit_char_def UnSupportedGradientBuilder_GetGradientDefsImpl_def)

theorem GetGradientDefs_names_witness:
  "GetGradientDefs ex_impl ex_builder {''q''} =
     (Inr [\<lparr>op_type = ''Mul'', input_args = [], output_args = [], attributes = [],
            name = ''drop1_Grad/Mul_0''\<rparr>,
           \<lparr>op_type = ''Sum'', input_args = [], output_args = [], attributes = [], name = ''n''\<rparr>,
           \<lparr>op_type = ''Mul'', input_args = [], output_args = [], attributes = [],
            name = ''drop1_Grad/Mul_2''\<rparr>], {''q''})"
  using GetGradientDefs_names [of ex_impl ex_builder "{''q''}"
      "[NodeDef ''Mul'' [] [] [], (NodeDef ''Sum'' [] [] [])\<lparr>name := ''n''\<rparr>,
        NodeDef ''Mul'' [] [] []]" "{''q''}"]
  by (simp add: ex_impl_def GetGradientDefs_def NodeDef_def Name_def ex_builder_def
      to_string_nat.simps digit_char_def)

text \<open>
  C3. \<open>ConstantScalarNode\<close> takes one branch, chosen by the element type alone: FLOAT16 gives
  the value as \<open>MLFloat16\<close>, BFLOAT16 as \<open>BFloat16\<close>, each of the four 8-bit float tags its
  own 8-bit type when the build has not disabled them, and every other tag, known to ONNX or
  not, the plain 32-bit float. The conditions exclude one another because the tags are
  pairwise distinct, so the order of the tests does not matter; and the call never fails.
\<close>

theorem ConstantScalarNode_dispatch:
  "(let node = (\<lambda>s. Inr (NodeDef ''Constant'' [] [ArgDef arg_nm None]
                  [AttributeTensor ''value'' \<lparr>data_type = DataType_of s, dims = [1], data = [s]\<rparr>]));
        result = ConstantScalarNode DISABLE_FLOAT8_TYPES v arg_nm elem_type;
        float8 = {TensorProto_DataType_FLOAT8E4M3FN, TensorProto_DataType_FLOAT8E4M3FNUZ,
                  TensorProto_DataType_FLOAT8E5M2, TensorProto_DataType_FLOAT8E5M2FNUZ}
    in (elem_type = TensorProto_DataType_FLOAT16 \<longrightarrow> result = node (MLFloat16 v)) \<and>
       (elem_type = TensorProto_DataType_BFLOAT16 \<longrightarrow> result = node (BFloat16 v)) \<and>
       (\<not> DISABLE_FLOAT8_TYPES \<and> elem_type = TensorProto_DataType_FLOAT8E4M3FN \<longrightarrow>
          result = node (Float8E4M3FN v True)) \<and>
       (\<not> DISABLE_FLOAT8_TYPES \<and> elem_type = TensorProto_DataType_FLOAT8E4M3FNUZ \<longrightarrow>
          result = node (Float8E4M3FNUZ v True)) \<and>
       (\<not> DISABLE_FLOAT8_TYPES \<and> elem_type = TensorProto_DataType_FLOAT8E5M2 \<longrightarrow>
          result = node (Float8E5M2 v True)) \<and>
       (\<not> DISABLE_FLOAT8_TYPES \<and> elem_type = TensorProto_DataType_FLOAT8E5M2FNUZ \<longrightarrow>
          result = node (Float8E5M2FNUZ v True)) \<and>
       (elem_type \<noteq> TensorProto_DataType_FLOAT16 \<and> elem_type \<noteq> TensorProto_DataType_BFLOAT16 \<and>
        (DISABLE_FLOAT8_TYPES \<or> elem_type \<notin> float8) \<longrightarrow> result = node (Float v)) \<and>
       (\<exists>node_def. result = Inr node_def)) \<and>
   distinct [TensorProto_DataType_FLOAT, TensorProto_DataType_FLOAT16,
     TensorProto_DataType_BFLOAT16, TensorProto_DataType_FLOAT8E4M3FN,
     TensorProto_DataType_FLOAT8E4M3FNUZ, TensorProto_DataType_FLOAT8E5M2,
     TensorProto_DataType_FLOAT8E5M2FNUZ]"
proof -
  have total: "\<exists>node_def. ConstantScalarNode DISABLE_FLOAT8_TYPES v arg_nm elem_type = Inr node_def"
    using ConstantScalarNode_some_scalar [of v DISABLE_FLOAT8_TYPES arg_nm elem_type] by blast
  show ?thesis
    unfolding Let_def
    apply (intro conjI impI)
            apply (simp add: ConstantScalarNode_FLOAT16 ConstantScalarNode_shape_one)
           apply (simp add: ConstantScalarNode_BFLOAT16 ConstantScalarNode_shape_one)
          apply (simp add: ConstantScalarNode_FLOAT8E4M3FN ConstantScalarNode_shape_one)
         apply (simp add: ConstantScalarNode_FLOAT8E4M3FNUZ ConstantScalarNode_shape_one)
        apply (simp add: ConstantScalarNode_FLOAT8E5M2 ConstantScalarNode_shape_one)
       apply (simp add: ConstantScalarNode_FLOAT8E5M2FNUZ ConstantScalarNode_shape_one)
      apply (simp add: ConstantScalarNode_default ConstantScalarNode_shape_one)
     apply (rule total)
    apply (rule DataType_distinct)
    done
qed

text \<open>
  The dispatch at FLOAT16 (10), BFLOAT16 (16), FLOAT8E4M3FN (17) with and without 8-bit
  floats, and at INT64 (7), a tag no branch names.
\<close>

theorem ConstantScalarNode_dispatch_witness:
  "ConstantScalarNode False float_1_0 ''c'' 10 =
     Inr (NodeDef ''Constant'' [] [ArgDef ''c'' None]
       [AttributeTensor ''value'' \<lparr>data_type = 10, dims = [1], data = [MLFloat16 float_1_0]\<rparr>]) \<and>
   ConstantScalarNode False float_1_0 ''c'' 16 =
     Inr (NodeDef ''Constant'' [] [ArgDef ''c'' None]
       [AttributeTensor ''value'' \<lparr>data_type = 16, dims = [1], data = [BFloat16 float_1_0]\<rparr>]) \<and>
   ConstantScalarNode False float_1_0 ''c'' 17 =
     Inr (NodeDef ''Constant'' [] [ArgDef ''c'' None]
       [AttributeTensor ''value''
          \<lparr>data_type = 17, dims = [1], data = [Float8E4M3FN float_1_0 True]\<rparr>]) \<and>
   ConstantScalarNode True float_1_0 ''c'' 17 =
     Inr (NodeDef ''Constant'' [] [ArgDef ''c'' None]
       [AttributeTensor ''value'' \<lparr>data_type = 1, dims = [1], data = [Float float_1_0]\<rparr>]) \<and>
   ConstantScalarNode False float_1_0 ''c'' 7 =
     Inr (NodeDef ''Constant'' [] [ArgDef ''c'' None]
       [AttributeTensor ''value'' \<lparr>data_type = 1, dims = [1], data = [Float float_1_0]\<rparr>])"
proof -
  note d = ConstantScalarNode_dispatch [unfolded Let_def DataType_defs, simplified]
  show ?thesis
    using d [of 10 False float_1_0 "''c''"] d [of 16 False float_1_0 "''c''"]
      d [of 17 False float_1_0 "''c''"] d [of 17 True float_1_0 "''c''"]
      d [of 7 False float_1_0 "''c''"]
    by (simp add: DataType_defs)
qed

text \<open>
  C4. When the two dimension lists have the same rank and equal entries at every axis,
  \<open>ComputeBroadcastBackwardAxes\<close> returns two empty axis lists, and \<open>HandleBroadcasting\<close> with
  an empty list of reduce axes returns the output list as it got it: no node is added.
\<close>

theorem no_broadcast_no_axes:
  "(length A_dims = length B_dims \<and> (\<forall>i<length A_dims. A_dims ! i = B_dims ! i) \<longrightarrow>
      ComputeBroadcastBackwardAxes A_dims B_dims node_name = Inr ([], [])) \<and>
   HandleBroadcasting b input_grad target output_grad [] output = output"
proof (intro conjI impI)
  assume "length A_dims = length B_dims \<and> (\<forall>i<length A_dims. A_dims ! i = B_dims ! i)"
  then have "A_dims = B_dims" by (simp add: nth_equalityI)
  then show "ComputeBroadcastBackwardAxes A_dims B_dims node_name = Inr ([], [])"
    by (simp add: ComputeBroadcastBackwardAxes_def walk_back_same)
next
  show "HandleBroadcasting b input_grad target output_grad [] output = output"
    by (simp add: HandleBroadcasting_def)
qed

theorem no_broadcast_no_axes_witness:
  "ComputeBroadcastBackwardAxes [DimValue 8, DimParam ''batch'', DimValue 1]
     [DimValue 8, DimParam ''batch'', DimValue 1] ''drop1'' = Inr ([], []) \<and>
   HandleBroadcasting ex_builder (ArgDef ''z_grad'' None) (ArgDef ''x'' None)
     (ArgDef ''x_grad'' None) [] [NodeDef ''Identity'' [] [] []] = [NodeDef ''Identity'' [] [] []]"
  using no_broadcast_no_axes [of "[DimValue 8, DimParam ''batch'', DimValue 1]"
      "[DimValue 8, DimParam ''batch'', DimValue 1]" "''drop1''" ex_builder
      "ArgDef ''z_grad'' None" "ArgDef ''x'' None" "ArgDef ''x_grad'' None"
      "[NodeDef ''Identity'' [] [] []]"]
  by simp

text \<open>
  C5. For every builder state and every stash, \<open>GetGradientDefs\<close> of the empty builder returns
  the empty list of nodes and the stash as it was, and \<open>GetGradientDefs\<close> of the unsupported
  builder fails with the enforced message and returns no list.
\<close>

theorem degenerate_builders:
  "GetGradientDefs EmptyGradientBuilder_GetGradientDefsImpl b stashed = (Inr [], stashed) \<and>
   GetGradientDefs UnSupportedGradientBuilder_GetGradientDefsImpl b stashed =
     (Inl (EnforceFailed ''Gradient should not be requested for this operator''), stashed)"
  by (simp add: GetGradientDefs_def EmptyGradientBuilder_GetGradientDefsImpl_def
      UnSupportedGradientBuilder_GetGradientDefsImpl_def)

text \<open>
  C6. Whatever calls of \<open>I\<close>, \<open>O\<close>, \<open>RecordStashedTensor\<close> and \<open>IsTensorStashed\<close> are made, on
  whatever builders, every name that was in the shared stash before is in it afterwards. If
  all the calls are accessor calls for one and the same forward argument name, the stash
  afterwards is either the stash before or the stash before with that one name inserted,
  however many calls were made.
\<close>

theorem stash_insert_only:
  "stashed \<subseteq> run_calls RecomputeName calls stashed \<and>
   ((\<forall>c\<in>set calls. accessed_name c = Some nm) \<longrightarrow>
      run_calls RecomputeName calls stashed = stashed \<or>
      run_calls RecomputeName calls stashed = insert nm stashed)"
  using run_calls_mono run_calls_same_name by blast

text \<open>
  Four accessor calls for \<open>mask\<close> on two builders insert it once; two calls for \<open>z\<close>, which
  has an alias, insert nothing.
\<close>

theorem stash_insert_only_witness:
  "{''q''} \<subseteq> run_calls ex_RecomputeName
      [(ex_builder, Call_O 1 True), (ex_builder2, Call_I 1 True), (ex_builder, Call_O 1 False),
       (ex_builder2, Call_I 1 True)] {''q''} \<and>
   run_calls ex_RecomputeName
      [(ex_builder, Call_O 1 True), (ex_builder2, Call_I 1 True), (ex_builder, Call_O 1 False),
       (ex_builder2, Call_I 1 True)] {''q''} = {''mask'', ''q''} \<and>
   run_calls ex_RecomputeName
      [(ex_builder, Call_O 0 True), (ex_builder2, Call_I 0 True)] {''q''} = {''q''}"
  using stash_insert_only [of "{''q''}" ex_RecomputeName
      "[(ex_builder, Call_O 1 True), (ex_builder2, Call_I 1 True), (ex_builder, Call_O 1 False),
        (ex_builder2, Call_I 1 True)]" "''mask''"]
    stash_insert_only [of "{''q''}" ex_RecomputeName
      "[(ex_builder, Call_O 0 True), (ex_builder2, Call_I 0 True)]" "''z''"]
  by (simp add: I_arg_def O_arg_def ex_builder_def ex_builder2_def ex_node_def
      ex_consumer_def ex_graph_def ex_RecomputeName_def Let_def RecordStashedTensor_def)

text \<open>
  C7. An index at or beyond the forward node's input count makes
  \<open>IsGradientRequiredForSrcNodeInput\<close> return false, and nothing fails; an index in range
  gives the membership of the i-th input's name in the required-gradient set. The same holds
  for \<open>IsGradientAvailableForSrcNodeOutput\<close>, the outputs and the available-gradient set.
\<close>

theorem gradient_queries_total:
  "(length (InputDefs (this_node b)) \<le> i \<longrightarrow> IsGradientRequiredForSrcNodeInput b i = False) \<and>
   (i < length (InputDefs (this_node b)) \<longrightarrow>
      IsGradientRequiredForSrcNodeInput b i =
        (NodeArg_Name (InputDefs (this_node b) ! i) \<in> this_gradient_outputs b)) \<and>
   (length (OutputDefs (this_node b)) \<le> j \<longrightarrow> IsGradientAvailableForSrcNodeOutput b j = False) \<and>
   (j < length (OutputDefs (this_node b)) \<longrightarrow>
      IsGradientAvailableForSrcNodeOutput b j =
        (NodeArg_Name (OutputDefs (this_node b) ! j) \<in> this_gradient_inputs b))"
  by (simp add: IsGradientRequiredForSrcNodeInput_def IsGradientAvailableForSrcNodeOutput_def)

theorem gradient_queries_total_witness:
  "IsGradientRequiredForSrcNodeInput ex_builder 2 = False \<and>
   IsGradientRequiredForSrcNodeInput ex_builder 0 = True \<and>
   IsGradientRequiredForSrcNodeInput ex_builder 1 = False \<and>
   IsGradientAvailableForSrcNodeOutput ex_builder 2 = False \<and>
   IsGradientAvailableForSrcNodeOutput ex_builder 1 = False \<and>
   IsGradientAvailableForSrcNodeOutput ex_builder 0 = True"
  using gradient_queries_total [of ex_builder 2 2] gradient_queries_total [of ex_builder 0 0]
    gradient_queries_total [of ex_builder 1 1]
  by (simp add: ex_builder_def ex_node_def)

text \<open>
  C8. The output argument of \<open>ZeroConstantNode\<close>, \<open>HalfConstantNode\<close> and \<open>OneConstantNode\<close> is
  named by the constructor and the decimal text of the element type: calls of one constructor
  give the same name exactly when the element types are equal, calls of two different
  constructors never give the same name, and the values carried are 0.0, 0.5 and 1.0 (as
  binary32 bit patterns 0, 0x3F000000 and 0x3F800000).
\<close>

theorem constant_node_names:
  "(let out = (\<lambda>r. case r of Inl e \<Rightarrow> None | Inr nd \<Rightarrow> Some (map arg_name (output_args nd)));
        val = (\<lambda>r. case r of
                 Inl e \<Rightarrow> None
               | Inr nd \<Rightarrow>
                   (case attributes nd of
                      [AttributeTensor k t_proto] \<Rightarrow> Some (map source (data t_proto))
                    | _ \<Rightarrow> None))
    in out (ZeroConstantNode d t) = Some [''ZeroConstant_Type'' @ to_string_int t] \<and>
       out (HalfConstantNode d t) = Some [''HalfConstant_Type'' @ to_string_int t] \<and>
       out (OneConstantNode d t) = Some [''OneConstant_Type'' @ to_string_int t] \<and>
       (out (ZeroConstantNode d t1) = out (ZeroConstantNode d t2)) = (t1 = t2) \<and>
       (out (HalfConstantNode d t1) = out (HalfConstantNode d t2)) = (t1 = t2) \<and>
       (out (OneConstantNode d t1) = out (OneConstantNode d t2)) = (t1 = t2) \<and>
       out (ZeroConstantNode d t1) \<noteq> out (HalfConstantNode d t2) \<and>
       out (ZeroConstantNode d t1) \<noteq> out (OneConstantNode d t2) \<and>
       out (HalfConstantNode d t1) \<noteq> out (OneConstantNode d t2) \<and>
       val (ZeroConstantNode d t) = Some [float_0_0] \<and>
       val (HalfConstantNode d t) = Some [float_0_5] \<and>
       val (OneConstantNode d t) = Some [float_1_0]) \<and>
   float_0_0 = 0x00000000 \<and> float_0_5 = 0x3F000000 \<and> float_1_0 = 0x3F800000"
proof -
  have inj: "(to_string_int t1 = to_string_int t2) = (t1 = t2)"
    using to_string_int_inj by blast
  show ?thesis
    unfolding Let_def ZeroConstantNode_def HalfConstantNode_def OneConstantNode_def
      ConstantScalarNode_out ConstantScalarNode_val
    by (simp add: inj float_0_0_def float_0_5_def float_1_0_def)
qed

text \<open>
  C9. \<open>ScalarTensorProto\<close> fails unless the shape is empty or is the one-element list [1], and
  on success the tensor has that shape; the constant that \<open>ConstantScalarNode\<close> builds for an
  element type therefore always has the shape [1].
\<close>

theorem ScalarTensorProto_shape:
  "ScalarTensorProto v shp =
     (if shp = [] \<or> shp = [1]
      then Inr \<lparr>data_type = DataType_of v, dims = shp, data = [v]\<rparr>
      else Inl (EnforceFailed ''shape.size() == 0 || (shape.size() == 1 && shape[0] == 1)'')) \<and>
   (\<exists>t_proto. ConstantScalarNode DISABLE_FLOAT8_TYPES x arg_nm elem_type =
       Inr (NodeDef ''Constant'' [] [ArgDef arg_nm None] [AttributeTensor ''value'' t_proto]) \<and>
       dims t_proto = [1])"
proof
  show "ScalarTensorProto v shp =
     (if shp = [] \<or> shp = [1]
      then Inr \<lparr>data_type = DataType_of v, dims = shp, data = [v]\<rparr>
      else Inl (EnforceFailed ''shape.size() == 0 || (shape.size() == 1 && shape[0] == 1)''))"
    unfolding ScalarTensorProto_def shape_check_cases
    by (auto simp: ToTensor_def add_dims_def)
  show "\<exists>t_proto. ConstantScalarNode DISABLE_FLOAT8_TYPES x arg_nm elem_type =
       Inr (NodeDef ''Constant'' [] [ArgDef arg_nm None] [AttributeTensor ''value'' t_proto]) \<and>
       dims t_proto = [1]"
  proof -
    from ConstantScalarNode_some_scalar [of x DISABLE_FLOAT8_TYPES arg_nm elem_type]
    obtain s where "ConstantScalarNode DISABLE_FLOAT8_TYPES x arg_nm elem_type =
       Inr (NodeDef ''Constant'' [] [ArgDef arg_nm None]
              [AttributeTensor ''value'' \<lparr>data_type = DataType_of s, dims = [1], data = [s]\<rparr>])"
      by blast
    then show ?thesis
      by (intro exI [of _ "\<lparr>data_type = DataType_of s, dims = [1], data = [s]\<rparr>"]) simp
  qed
qed

text \<open>
  C10. \<open>OnnxOpSetVersion\<close> never fails: it returns the version the graph registers for the
  ONNX domain when the graph pointer is not null and the map has the domain, and -1 when the
  pointer is null or the map has no entry for the domain.
\<close>

theorem OnnxOpSetVersion_total:
  "OnnxOpSetVersion kOnnxDomain b =
     Inr (case this_graph b of
            None \<Rightarrow> - 1
          | Some g \<Rightarrow> (case DomainToVersionMap g kOnnxDomain of None \<Rightarrow> - 1 | Some v \<Rightarrow> v))"
  by (simp add: OnnxOpSetVersion_def map_at_def split: option.splits)

end
